theory Spec2Isabelle
  imports Main
begin

section \<open>The POSIX daemon lifecycle of \<^verbatim>\<open>daemon/daemon-posix.cc\<close>\<close>

text \<open>
  The file keeps three statics (\<^verbatim>\<open>callbacks\<close>, \<^verbatim>\<open>callback_arg\<close>, \<^verbatim>\<open>signal_pipe\<close>) and
  talks to the operating system through \<^verbatim>\<open>write\<close>, \<^verbatim>\<open>read\<close>, \<^verbatim>\<open>pipe\<close>, \<^verbatim>\<open>close\<close>,
  \<^verbatim>\<open>open\<close>, \<^verbatim>\<open>dup2\<close>, \<^verbatim>\<open>fork\<close>, \<^verbatim>\<open>setsid\<close>, \<^verbatim>\<open>daemon\<close>, \<^verbatim>\<open>signal\<close>, \<^verbatim>\<open>pthread_create\<close> and
  \<^verbatim>\<open>pthread_join\<close>. The model passes one record of the process state through every
  function; what the operating system answers in a run is read from a second record that
  no function changes. Pointers are addresses (\<open>0\<close> is \<^verbatim>\<open>nullptr\<close>), file descriptors and
  signal numbers are C \<^verbatim>\<open>int\<close>s. Every way of not returning (\<^verbatim>\<open>abort()\<close>, a failed
  \<^verbatim>\<open>assert\<close>, a call through a null pointer, a \<^verbatim>\<open>read\<close> that blocks for ever) is a value.
\<close>

subsection \<open>Data\<close>

datatype open_file = File string | Pipe_read | Pipe_write

datatype disposition = Sig_dfl | Sig_ign | Send_signal_to_pipe

text \<open>One entry per call through the callback table: which table, which member, which
  arguments.\<close>

datatype call = On_start nat nat bool | On_stop nat nat | On_reconfigure nat nat

record state =
  callbacks :: nat
  callback_arg :: nat
  signal_pipe :: "int \<times> int"
  errno :: int
  fds :: "nat \<rightharpoonup> open_file"
  pipe_buf :: "int list"
  dispositions :: "int \<Rightarrow> disposition"
  session_leader :: bool
  cwd :: string
  thread_alive :: bool
  calls :: "call list"
  exit_code :: int
  error :: "(int \<times> string) option"

text \<open>
  The ways of not returning. \<^verbatim>\<open>abort()\<close>, a failed \<^verbatim>\<open>assert\<close> and a call through a null
  pointer end the process. A reader that waits on the empty pipe does not: \<open>Blocked\<close> holds
  the state in which it waits, with every call made up to then.
\<close>

datatype fault = Abort | Assertion_failed | Null_deref | Blocked state

text \<open>
  The build configuration and the answers of the operating system and of the workload in
  one run. \<open>have_daemon\<close> is the condition of the \<^verbatim>\<open>#if\<close> in \<^verbatim>\<open>dtr_daemon\<close>
  (\<^verbatim>\<open>HAVE_DAEMON\<close> defined, neither \<^verbatim>\<open>__APPLE__\<close> nor \<^verbatim>\<open>__UCLIBC__\<close>); \<open>ndebug\<close> is
  \<^verbatim>\<open>NDEBUG\<close>, under which \<^verbatim>\<open>assert\<close> expands to nothing. \<open>os_errno\<close> is the error number a
  failing call leaves in \<^verbatim>\<open>errno\<close>; \<open>errno_after_write\<close> is what a successful \<^verbatim>\<open>write\<close>
  leaves there (POSIX leaves \<^verbatim>\<open>errno\<close> unspecified after a successful call).
  \<open>start_signals\<close> are the signals delivered while \<^verbatim>\<open>on_start\<close> runs and \<open>start_ret\<close>
  is the value \<^verbatim>\<open>on_start\<close> returns.
\<close>

record env =
  have_daemon :: bool
  ndebug :: bool
  os_errno :: int
  errno_after_write :: int
  open_max :: nat
  daemon_ret :: int
  fork_ret :: int
  setsid_ret :: int
  open_fails :: bool
  pipe_fails :: bool
  pthread_create_ret :: int
  signal_fails :: "int \<Rightarrow> bool"
  write_fails :: "int \<Rightarrow> bool"
  strerror :: "int \<Rightarrow> string"
  start_signals :: "int list"
  start_ret :: int

text \<open>
  The constants of \<^verbatim>\<open><signal.h>\<close> and \<^verbatim>\<open><unistd.h>\<close>, with the values they have on
  Linux, the BSDs and macOS.
\<close>

definition SIGHUP :: int where "SIGHUP = 1"
definition SIGINT :: int where "SIGINT = 2"
definition SIGTERM :: int where "SIGTERM = 15"

definition STDIN_FILENO :: int where "STDIN_FILENO = 0"
definition STDOUT_FILENO :: int where "STDOUT_FILENO = 1"
definition STDERR_FILENO :: int where "STDERR_FILENO = 2"

text \<open>\<^verbatim>\<open>sizeof(int)\<close>.\<close>

definition sizeof_sig :: int where "sizeof_sig = 4"

text \<open>Sequencing of steps that may not return.\<close>

definition seq :: "fault + 'a \<Rightarrow> ('a \<Rightarrow> fault + 'b) \<Rightarrow> fault + 'b" where
  "seq m f = (case m of Inl x \<Rightarrow> Inl x | Inr a \<Rightarrow> f a)"

subsection \<open>The system calls the file uses\<close>

text \<open>The lowest descriptor number not in use, below the limit on open files.\<close>

definition lowest_free :: "nat \<Rightarrow> (nat \<rightharpoonup> open_file) \<Rightarrow> nat option" where
  "lowest_free lim t = find (\<lambda>i. t i = None) [0..<lim]"

definition is_open :: "state \<Rightarrow> int \<Rightarrow> bool" where
  "is_open w fd = (0 \<le> fd \<and> fds w (nat fd) \<noteq> None)"

definition sys_open :: "env \<Rightarrow> string \<Rightarrow> state \<Rightarrow> int \<times> state" where
  "sys_open e path w =
     (if open_fails e then (- 1, w\<lparr>errno := os_errno e\<rparr>)
      else case lowest_free (open_max e) (fds w) of
             None \<Rightarrow> (- 1, w\<lparr>errno := os_errno e\<rparr>)
           | Some i \<Rightarrow> (int i, w\<lparr>fds := (fds w)(i \<mapsto> File path)\<rparr>))"

definition sys_dup2 :: "env \<Rightarrow> int \<Rightarrow> int \<Rightarrow> state \<Rightarrow> int \<times> state" where
  "sys_dup2 e oldfd newfd w =
     (if is_open w oldfd \<and> 0 \<le> newfd
      then (newfd, w\<lparr>fds := (fds w)(nat newfd := fds w (nat oldfd))\<rparr>)
      else (- 1, w\<lparr>errno := os_errno e\<rparr>))"

definition sys_close :: "env \<Rightarrow> int \<Rightarrow> state \<Rightarrow> int \<times> state" where
  "sys_close e fd w =
     (if is_open w fd then (0, w\<lparr>fds := (fds w)(nat fd := None)\<rparr>)
      else (- 1, w\<lparr>errno := os_errno e\<rparr>))"

text \<open>\<^verbatim>\<open>pipe(signal_pipe)\<close>: two new descriptors, stored in the array it is given.\<close>

definition sys_pipe :: "env \<Rightarrow> state \<Rightarrow> int \<times> state" where
  "sys_pipe e w =
     (if pipe_fails e then (- 1, w\<lparr>errno := os_errno e\<rparr>)
      else case lowest_free (open_max e) (fds w) of
             None \<Rightarrow> (- 1, w\<lparr>errno := os_errno e\<rparr>)
           | Some r \<Rightarrow>
              (case lowest_free (open_max e) ((fds w)(r \<mapsto> Pipe_read)) of
                 None \<Rightarrow> (- 1, w\<lparr>errno := os_errno e\<rparr>)
               | Some wr \<Rightarrow>
                  (0, w\<lparr>fds := (fds w)(r \<mapsto> Pipe_read, wr \<mapsto> Pipe_write),
                         signal_pipe := (int r, int wr),
                         pipe_buf := []\<rparr>)))"

text \<open>
  \<^verbatim>\<open>write(fd, &sig, sizeof(sig))\<close>. On the write end of the pipe the whole \<^verbatim>\<open>int\<close> is
  queued (a write of at most \<^verbatim>\<open>PIPE_BUF\<close> bytes is atomic); a descriptor that refers to a
  file takes the four bytes, which go nowhere in this model. The call fails on a descriptor
  that is not open or is the read end, or when the operating system says so.
\<close>

definition sys_write :: "env \<Rightarrow> int \<Rightarrow> int \<Rightarrow> state \<Rightarrow> int \<times> state" where
  "sys_write e fd v w =
     (if 0 \<le> fd \<and> \<not> write_fails e v
      then (case fds w (nat fd) of
              Some Pipe_write \<Rightarrow>
                (sizeof_sig, w\<lparr>pipe_buf := pipe_buf w @ [v], errno := errno_after_write e\<rparr>)
            | Some (File path) \<Rightarrow> (sizeof_sig, w\<lparr>errno := errno_after_write e\<rparr>)
            | Some Pipe_read \<Rightarrow> (- 1, w\<lparr>errno := os_errno e\<rparr>)
            | None \<Rightarrow> (- 1, w\<lparr>errno := os_errno e\<rparr>))
      else (- 1, w\<lparr>errno := os_errno e\<rparr>))"

text \<open>Some descriptor below the limit is the write end of the pipe.\<close>

definition write_end_open :: "env \<Rightarrow> state \<Rightarrow> bool" where
  "write_end_open e w = list_ex (\<lambda>i. fds w i = Some Pipe_write) [0..<open_max e]"

text \<open>
  \<^verbatim>\<open>read(fd, &sig, sizeof(sig))\<close> on the read end of the pipe, as the dispatch thread sees
  it: the return value, the value left in \<^verbatim>\<open>sig\<close>, and the state. When the pipe is empty
  the reader waits as long as a write end is open, and gets 0, the end of file, when none
  is. On any other descriptor the model answers \<open>- 1\<close>. \<^verbatim>\<open>errno\<close> is per thread, so the
  reader leaves the caller's alone.
\<close>

definition sys_read :: "env \<Rightarrow> int \<Rightarrow> state \<Rightarrow> fault + (int \<times> int \<times> state)" where
  "sys_read e fd w =
     (if 0 \<le> fd \<and> fds w (nat fd) = Some Pipe_read
      then (case pipe_buf w of
              [] \<Rightarrow> if write_end_open e w then Inl (Blocked w) else Inr (0, 0, w)
            | v # rest \<Rightarrow> Inr (sizeof_sig, v, w\<lparr>pipe_buf := rest\<rparr>))
      else Inr (- 1, 0, w))"

subsection \<open>Error objects\<close>

text \<open>\<^verbatim>\<open>std::to_string\<close> on an \<^verbatim>\<open>int\<close>.\<close>

fun digits :: "nat \<Rightarrow> string" where
  "digits n =
     (if n < 10 then [char_of (48 + n)]
      else digits (n div 10) @ [char_of (48 + n mod 10)])"

definition to_string :: "int \<Rightarrow> string" where
  "to_string i = (if i < 0 then CHR ''-'' # digits (nat (- i)) else digits (nat i))"

text \<open>
  Modelled from the spec: \<^verbatim>\<open>tr_error_set\<close> (\<^verbatim>\<open>libtransmission/error.h\<close>, not among the
  sources). The error object is a human-readable message plus the originating OS error code;
  the out-parameter \<^verbatim>\<open>tr_error** error\<close> is the field \<open>error\<close>.
\<close>

definition tr_error_set :: "int \<Rightarrow> string \<Rightarrow> state \<Rightarrow> state" where
  "tr_error_set code message w = w\<lparr>error := Some (code, message)\<rparr>"

definition set_system_error :: "env \<Rightarrow> int \<Rightarrow> string \<Rightarrow> state \<Rightarrow> state" where
  "set_system_error e code message w =
     tr_error_set code (message @ '' ('' @ to_string code @ ''): '' @ strerror e code) w"

subsection \<open>Signal relay and dispatch thread\<close>

text \<open>
  \<^verbatim>\<open>assert(c)\<close>: nothing under \<^verbatim>\<open>NDEBUG\<close>, otherwise a failure when \<open>c\<close> is false.
\<close>

definition c_assert :: "env \<Rightarrow> bool \<Rightarrow> 'a \<Rightarrow> fault + 'a" where
  "c_assert e c w = (if ndebug e \<or> c then Inr w else Inl Assertion_failed)"

text \<open>
  The truth value of a string literal used as a condition: the literal decays to the
  address of its characters, which is never null.
\<close>

definition literal_as_condition :: "string \<Rightarrow> bool" where
  "literal_as_condition s = True"

definition handle_signal :: "env \<Rightarrow> int \<Rightarrow> state \<Rightarrow> fault + state" where
  "handle_signal e sig w =
     (if sig = SIGHUP then
        (if callbacks w = 0 then Inl Null_deref
         else Inr (w\<lparr>calls := calls w @ [On_reconfigure (callbacks w) (callback_arg w)]\<rparr>))
      else if sig = SIGINT \<or> sig = SIGTERM then
        (if callbacks w = 0 then Inl Null_deref
         else Inr (w\<lparr>calls := calls w @ [On_stop (callbacks w) (callback_arg w)]\<rparr>))
      else c_assert e (literal_as_condition ''Unexpected signal'') w)"

definition send_signal_to_pipe :: "env \<Rightarrow> int \<Rightarrow> state \<Rightarrow> fault + state" where
  "send_signal_to_pipe e sig w =
     (let old_errno = errno w;
          (n, w1) = sys_write e (snd (signal_pipe w)) sig w
      in if n = - 1 then Inl Abort
         else Inr (w1\<lparr>errno := old_errno\<rparr>))"

function signal_handler_thread_main :: "env \<Rightarrow> state \<Rightarrow> fault + state" where
  "signal_handler_thread_main e w =
     (case sys_read e (fst (signal_pipe w)) w of
        Inl x \<Rightarrow> Inl x
      | Inr (n, sig, w1) \<Rightarrow>
          if n = sizeof_sig \<and> sig \<noteq> 0
          then (case handle_signal e sig w1 of
                  Inl x \<Rightarrow> Inl x
                | Inr w2 \<Rightarrow> signal_handler_thread_main e w2)
          else Inr w1)"
  by pat_completeness auto
termination
  by (relation "measure (\<lambda>(e, w). length (pipe_buf w))")
     (auto simp: sys_read_def handle_signal_def c_assert_def
           split: if_splits list.splits)

declare signal_handler_thread_main.simps [simp del]

subsection \<open>Creating and destroying the pipe and the thread\<close>

definition create_signal_pipe :: "env \<Rightarrow> state \<Rightarrow> bool \<times> state" where
  "create_signal_pipe e w =
     (let (r, w1) = sys_pipe e w
      in if r = - 1 then (False, set_system_error e (errno w1) ''pipe() failed'' w1)
         else (True, w1))"

definition destroy_signal_pipe :: "env \<Rightarrow> state \<Rightarrow> state" where
  "destroy_signal_pipe e w =
     (let w1 = snd (sys_close e (fst (signal_pipe w)) w)
      in snd (sys_close e (snd (signal_pipe w1)) w1))"

text \<open>
  \<^verbatim>\<open>pthread_create\<close> returns an error number, \<open>0\<close> on success. The new thread runs
  \<^verbatim>\<open>signal_handler_thread_main\<close> beside the caller; the model runs the thread's whole loop
  at the point where the caller waits for it, in \<^verbatim>\<open>pthread_join\<close>, on what the pipe holds
  by then. A thread that does not come back keeps the joiner waiting. The thread that is
  joined is the only reader of the pipe here: a dispatch thread left alive by an earlier
  call that is still active is not a second reader in this model.
\<close>

definition sys_pthread_create :: "env \<Rightarrow> state \<Rightarrow> int \<times> state" where
  "sys_pthread_create e w =
     (if pthread_create_ret e = 0 then (0, w\<lparr>thread_alive := True\<rparr>)
      else (pthread_create_ret e, w))"

definition sys_pthread_join :: "env \<Rightarrow> state \<Rightarrow> fault + state" where
  "sys_pthread_join e w =
     (if thread_alive w
      then seq (signal_handler_thread_main e w) (\<lambda>w1. Inr (w1\<lparr>thread_alive := False\<rparr>))
      else Inr w)"

definition create_signal_handler_thread :: "env \<Rightarrow> state \<Rightarrow> bool \<times> state" where
  "create_signal_handler_thread e w =
     (let (ok, w1) = create_signal_pipe e w
      in if \<not> ok then (False, w1)
         else (let (r, w2) = sys_pthread_create e w1;
                   w3 = w2\<lparr>errno := r\<rparr>
               in if errno w3 \<noteq> 0
                  then (False, destroy_signal_pipe e
                                 (set_system_error e (errno w3) ''pthread_create() failed'' w3))
                  else (True, w3)))"

definition destroy_signal_handler_thread :: "env \<Rightarrow> state \<Rightarrow> fault + state" where
  "destroy_signal_handler_thread e w =
     seq (send_signal_to_pipe e 0 w) (\<lambda>w1.
     seq (sys_pthread_join e w1) (\<lambda>w2.
     Inr (destroy_signal_pipe e w2)))"

text \<open>\<^verbatim>\<open>signal(sig, &send_signal_to_pipe)\<close>: the previous disposition, or \<open>None\<close> for
  \<^verbatim>\<open>SIG_ERR\<close>.\<close>

definition sys_signal :: "env \<Rightarrow> int \<Rightarrow> state \<Rightarrow> disposition option \<times> state" where
  "sys_signal e sig w =
     (if signal_fails e sig then (None, w\<lparr>errno := os_errno e\<rparr>)
      else (Some (dispositions w sig),
            w\<lparr>dispositions := (dispositions w)(sig := Send_signal_to_pipe)\<rparr>))"

definition setup_signal_handler :: "env \<Rightarrow> int \<Rightarrow> state \<Rightarrow> fault + (bool \<times> state)" where
  "setup_signal_handler e sig w =
     seq (c_assert e (sig \<noteq> 0) w) (\<lambda>w0.
       let (old, w1) = sys_signal e sig w0
       in if old = None
          then Inr (False, set_system_error e (errno w1) ''signal() failed'' w1)
          else Inr (True, w1))"

subsection \<open>Detaching from the terminal\<close>

text \<open>
  \<^verbatim>\<open>daemon(nochdir, noclose)\<close> of the C library, in the process in which it returns (the
  parent exits inside the call): the caller is in a new session, its working directory is
  the root unless \<open>nochdir\<close>, its standard streams are the null device unless \<open>noclose\<close>.
\<close>

definition sys_daemon :: "env \<Rightarrow> bool \<Rightarrow> bool \<Rightarrow> state \<Rightarrow> int \<times> state" where
  "sys_daemon e nochdir noclose w =
     (if daemon_ret e = - 1 then (- 1, w\<lparr>errno := os_errno e\<rparr>)
      else (0, w\<lparr>session_leader := True,
                 cwd := (if nochdir then cwd w else ''/''),
                 fds := (if noclose then fds w
                         else (fds w)(0 \<mapsto> File ''/dev/null'', 1 \<mapsto> File ''/dev/null'',
                                      2 \<mapsto> File ''/dev/null''))\<rparr>))"

text \<open>\<^verbatim>\<open>fork()\<close>: the child is a copy of the caller, so both go on from the same state.\<close>

definition sys_fork :: "env \<Rightarrow> state \<Rightarrow> int \<times> state" where
  "sys_fork e w =
     (if fork_ret e = - 1 then (- 1, w\<lparr>errno := os_errno e\<rparr>) else (fork_ret e, w))"

definition sys_setsid :: "env \<Rightarrow> state \<Rightarrow> int \<times> state" where
  "sys_setsid e w =
     (if setsid_ret e = - 1 then (- 1, w\<lparr>errno := os_errno e\<rparr>)
      else (setsid_ret e, w\<lparr>session_leader := True\<rparr>))"

text \<open>What the block under \<^verbatim>\<open>if (!foreground)\<close> does to the rest of \<^verbatim>\<open>dtr_daemon\<close>: it
  returns at once, or control falls through to the code after it.\<close>

datatype flow =
    is_return: Return_now (return_value: bool) (return_state: state)
  | Fall_through (next_state: state)

definition redirect_stdio :: "env \<Rightarrow> state \<Rightarrow> state" where
  "redirect_stdio e w =
     (let (fd, w1) = sys_open e ''/dev/null'' w;
          w2 = snd (sys_dup2 e fd STDIN_FILENO w1);
          w3 = snd (sys_dup2 e fd STDOUT_FILENO w2);
          w4 = snd (sys_dup2 e fd STDERR_FILENO w3)
      in snd (sys_close e fd w4))"

definition detach :: "env \<Rightarrow> state \<Rightarrow> flow" where
  "detach e w =
     (if have_daemon e then
        (let (r, w1) = sys_daemon e True False w
         in if r = - 1
            then Return_now False (set_system_error e (errno w1) ''daemon() failed'' w1)
            else Fall_through w1)
      else
        (let (pid, w1) = sys_fork e w
         in if pid = - 1
            then Return_now False (set_system_error e (errno w1) ''fork() failed'' w1)
            else if pid = 0 then
              (let (sid, w2) = sys_setsid e w1
               in if sid = - 1
                  then Return_now False (set_system_error e (errno w2) ''setsid() failed'' w2)
                  else Fall_through (redirect_stdio e w2))
            else Return_now True (w1\<lparr>exit_code := 0\<rparr>)))"

subsection \<open>The entry point\<close>

text \<open>
  The three registrations of line 213, joined by \<^verbatim>\<open>||\<close>: the first that fails ends the
  chain.
\<close>

definition setup_signal_handlers :: "env \<Rightarrow> state \<Rightarrow> fault + (bool \<times> state)" where
  "setup_signal_handlers e w =
     seq (setup_signal_handler e SIGINT w) (\<lambda>(ok1, w1).
       if \<not> ok1 then Inr (False, w1)
       else seq (setup_signal_handler e SIGTERM w1) (\<lambda>(ok2, w2).
         if \<not> ok2 then Inr (False, w2)
         else setup_signal_handler e SIGHUP w2))"

text \<open>A signal that arrives runs the handler installed for it; signals left at another
  disposition are not this file's.\<close>

definition deliver :: "env \<Rightarrow> int \<Rightarrow> state \<Rightarrow> fault + state" where
  "deliver e sig w =
     (if dispositions w sig = Send_signal_to_pipe then send_signal_to_pipe e sig w
      else Inr w)"

fun deliver_all :: "env \<Rightarrow> int list \<Rightarrow> state \<Rightarrow> fault + state" where
  "deliver_all e [] w = Inr w"
| "deliver_all e (sig # sigs) w = seq (deliver e sig w) (deliver_all e sigs)"

text \<open>\<^verbatim>\<open>*exit_code = cb->on_start(cb_arg, foreground)\<close>, with the signals that arrive
  meanwhile.\<close>

definition call_on_start :: "env \<Rightarrow> nat \<Rightarrow> nat \<Rightarrow> bool \<Rightarrow> state \<Rightarrow> fault + state" where
  "call_on_start e cb cb_arg foreground w =
     (if cb = 0 then Inl Null_deref
      else seq (deliver_all e (start_signals e)
                  (w\<lparr>calls := calls w @ [On_start cb cb_arg foreground]\<rparr>))
               (\<lambda>w1. Inr (w1\<lparr>exit_code := start_ret e\<rparr>)))"

definition dtr_daemon :: "env \<Rightarrow> nat \<Rightarrow> nat \<Rightarrow> bool \<Rightarrow> state \<Rightarrow> fault + (bool \<times> state)" where
  "dtr_daemon e cb cb_arg foreground w0 =
     (let w = w0\<lparr>callbacks := cb, callback_arg := cb_arg, exit_code := 1\<rparr>
      in case (if \<not> foreground then detach e w else Fall_through w) of
           Return_now r w1 \<Rightarrow> Inr (r, w1)
         | Fall_through w1 \<Rightarrow>
             (let (created, w2) = create_signal_handler_thread e w1
              in if \<not> created then Inr (False, w2)
                 else seq (setup_signal_handlers e w2) (\<lambda>(installed, w3).
                        if \<not> installed
                        then seq (destroy_signal_handler_thread e w3) (\<lambda>w4. Inr (False, w4))
                        else seq (call_on_start e cb cb_arg foreground w3) (\<lambda>w4.
                             seq (destroy_signal_handler_thread e w4) (\<lambda>w5.
                             Inr (True, w5))))))"

subsection \<open>What the steps after the entry leave alone\<close>

text \<open>The two statics that hold the callbacks, and the caller's exit code.\<close>

definition kept :: "state \<Rightarrow> state \<Rightarrow> bool" where
  "kept w w' \<longleftrightarrow>
     callbacks w' = callbacks w \<and> callback_arg w' = callback_arg w \<and> exit_code w' = exit_code w"

text \<open>The handlers in place when the chain of registrations stops.\<close>

definition installed_before_failure :: "env \<Rightarrow> (int \<Rightarrow> disposition) \<Rightarrow> int \<Rightarrow> disposition" where
  "installed_before_failure e d =
     (if signal_fails e SIGINT then d
      else if signal_fails e SIGTERM then d(SIGINT := Send_signal_to_pipe)
      else d(SIGINT := Send_signal_to_pipe, SIGTERM := Send_signal_to_pipe))"

subsection \<open>Concrete runs\<close>

text \<open>
  An environment in which every call succeeds, a process that has its three standard
  streams on a terminal, and the same process while a dispatch thread is running (table at
  address 7, context 9, pipe on descriptors 3 and 4).
\<close>

definition example_env :: env where
  "example_env =
     \<lparr>have_daemon = False, ndebug = False, os_errno = 5, errno_after_write = 11,
      open_max = 16, daemon_ret = 0, fork_ret = 0, setsid_ret = 100,
      open_fails = False, pipe_fails = False, pthread_create_ret = 0,
      signal_fails = (\<lambda>sig. False), write_fails = (\<lambda>v. False),
      strerror = (\<lambda>code. ''Input/output error''),
      start_signals = [SIGHUP, SIGTERM], start_ret = 0\<rparr>"

definition example_state :: state where
  "example_state =
     \<lparr>callbacks = 0, callback_arg = 0, signal_pipe = (0, 0), errno = 0,
      fds = [0 \<mapsto> File ''/dev/tty'', 1 \<mapsto> File ''/dev/tty'', 2 \<mapsto> File ''/dev/tty''],
      pipe_buf = [], dispositions = (\<lambda>sig. Sig_dfl), session_leader = False,
      cwd = ''/home/user'', thread_alive = False, calls = [], exit_code = 0,
      error = None\<rparr>"

definition running_state :: state where
  "running_state =
     example_state\<lparr>callbacks := 7, callback_arg := 9, signal_pipe := (3, 4),
                   fds := (fds example_state)(3 \<mapsto> Pipe_read, 4 \<mapsto> Pipe_write),
                   thread_alive := True, errno := 2\<rparr>"

text \<open>The first process started with its standard input closed.\<close>

definition stdin_closed_state :: state where
  "stdin_closed_state =
     example_state\<lparr>fds := [1 \<mapsto> File ''/dev/tty'', 2 \<mapsto> File ''/dev/tty'']\<rparr>"

text \<open>An operating system that refuses the handler for \<^verbatim>\<open>SIGTERM\<close>.\<close>

definition sigterm_refused_env :: env where
  "sigterm_refused_env = example_env\<lparr>signal_fails := (\<lambda>sig. sig = SIGTERM)\<rparr>"

section \<open>Properties\<close>

subsection \<open>The dispatch thread\<close>

lemma handle_signal_unexpected:
  "sig \<noteq> SIGHUP \<Longrightarrow> sig \<noteq> SIGINT \<Longrightarrow> sig \<noteq> SIGTERM \<Longrightarrow> handle_signal e sig w = Inr w"
  by (simp add: handle_signal_def c_assert_def literal_as_condition_def)

lemma thread_main_step:
  assumes "0 \<le> fst (signal_pipe w)"
    and "fds w (nat (fst (signal_pipe w))) = Some Pipe_read"
    and "pipe_buf w = sig # rest"
    and "sig \<noteq> 0"
  shows "signal_handler_thread_main e w =
         seq (handle_signal e sig (w\<lparr>pipe_buf := rest\<rparr>)) (signal_handler_thread_main e)"
  using assms
  by (subst signal_handler_thread_main.simps)
     (simp add: sys_read_def seq_def sizeof_sig_def)

lemma thread_main_sentinel:
  assumes "0 \<le> fst (signal_pipe w)"
    and "fds w (nat (fst (signal_pipe w))) = Some Pipe_read"
    and "pipe_buf w = 0 # rest"
  shows "signal_handler_thread_main e w = Inr (w\<lparr>pipe_buf := rest\<rparr>)"
  using assms
  by (subst signal_handler_thread_main.simps) (simp add: sys_read_def)

text \<open>
  C1. An identifier other than \<^verbatim>\<open>SIGHUP\<close>, \<^verbatim>\<open>SIGINT\<close>, \<^verbatim>\<open>SIGTERM\<close> reaches the
  \<^verbatim>\<open>default\<close> branch, whose \<^verbatim>\<open>assert("Unexpected signal")\<close> tests a string literal and so
  never fails: \<^verbatim>\<open>handle_signal\<close> returns with the state untouched, whatever \<^verbatim>\<open>NDEBUG\<close> is.
  Shown at the identifier 10: a thread that finds 10 and then the sentinel in the pipe
  skips the 10, reads on and returns as if nothing had happened.
\<close>

theorem unexpected_signal_is_ignored:
  "handle_signal e 10 w = Inr w
   \<and> signal_handler_thread_main example_env (running_state\<lparr>pipe_buf := [10, 0]\<rparr>)
     = Inr (running_state\<lparr>pipe_buf := []\<rparr>)"
proof -
  have h: "handle_signal e 10 w = Inr w" for e w
    by (rule handle_signal_unexpected) (simp_all add: SIGHUP_def SIGINT_def SIGTERM_def)
  have a: "signal_handler_thread_main example_env (running_state\<lparr>pipe_buf := [10, 0]\<rparr>)
           = signal_handler_thread_main example_env (running_state\<lparr>pipe_buf := [0]\<rparr>)"
    using thread_main_step [of "running_state\<lparr>pipe_buf := [10, 0]\<rparr>" 10 "[0]" example_env]
    by (simp add: h seq_def running_state_def example_state_def)
  have b: "signal_handler_thread_main example_env (running_state\<lparr>pipe_buf := [0]\<rparr>)
           = Inr (running_state\<lparr>pipe_buf := []\<rparr>)"
    using thread_main_sentinel [of "running_state\<lparr>pipe_buf := [0]\<rparr>" "[]" example_env]
    by (simp add: running_state_def example_state_def)
  show ?thesis using h a b by simp
qed

text \<open>
  C3. When the thread reads \<^verbatim>\<open>SIGHUP\<close> from the pipe, \<^verbatim>\<open>handle_signal\<close> makes exactly one
  call, \<^verbatim>\<open>on_reconfigure\<close> of the stored table with the stored context, and the thread goes
  on with the loop from the state that has this call in its log and the rest of the pipe
  to read; when it reads \<^verbatim>\<open>SIGINT\<close> or \<^verbatim>\<open>SIGTERM\<close> the one call is \<^verbatim>\<open>on_stop\<close>. The call
  is made whatever is behind the identifier in the pipe: when nothing is, the thread is left
  waiting on the empty pipe (or has returned at the end of file, if no write end is open)
  in the state that has the call in its log.
\<close>

theorem thread_dispatches_registered_signals:
  assumes "0 \<le> fst (signal_pipe w)"
    and "fds w (nat (fst (signal_pipe w))) = Some Pipe_read"
    and "pipe_buf w = sig # rest"
    and "callbacks w \<noteq> 0"
  shows "(sig = SIGHUP \<longrightarrow>
            handle_signal e sig (w\<lparr>pipe_buf := rest\<rparr>) =
            Inr (w\<lparr>pipe_buf := rest,
                   calls := calls w @ [On_reconfigure (callbacks w) (callback_arg w)]\<rparr>)
          \<and> signal_handler_thread_main e w =
            signal_handler_thread_main e
              (w\<lparr>pipe_buf := rest,
                 calls := calls w @ [On_reconfigure (callbacks w) (callback_arg w)]\<rparr>)
          \<and> (rest = [] \<longrightarrow>
               signal_handler_thread_main e w =
               (if write_end_open e w
                then Inl (Blocked
                       (w\<lparr>pipe_buf := [],
                          calls := calls w @ [On_reconfigure (callbacks w) (callback_arg w)]\<rparr>))
                else Inr (w\<lparr>pipe_buf := [],
                            calls := calls w @ [On_reconfigure (callbacks w) (callback_arg w)]\<rparr>))))
       \<and> (sig = SIGINT \<or> sig = SIGTERM \<longrightarrow>
            handle_signal e sig (w\<lparr>pipe_buf := rest\<rparr>) =
            Inr (w\<lparr>pipe_buf := rest,
                   calls := calls w @ [On_stop (callbacks w) (callback_arg w)]\<rparr>)
          \<and> signal_handler_thread_main e w =
            signal_handler_thread_main e
              (w\<lparr>pipe_buf := rest,
                 calls := calls w @ [On_stop (callbacks w) (callback_arg w)]\<rparr>)
          \<and> (rest = [] \<longrightarrow>
               signal_handler_thread_main e w =
               (if write_end_open e w
                then Inl (Blocked
                       (w\<lparr>pipe_buf := [],
                          calls := calls w @ [On_stop (callbacks w) (callback_arg w)]\<rparr>))
                else Inr (w\<lparr>pipe_buf := [],
                            calls := calls w @ [On_stop (callbacks w) (callback_arg w)]\<rparr>))))"
proof -
  have nz: "SIGHUP \<noteq> 0" "SIGINT \<noteq> 0" "SIGTERM \<noteq> 0"
    by (simp_all add: SIGHUP_def SIGINT_def SIGTERM_def)
  have waits: "signal_handler_thread_main e (w\<lparr>pipe_buf := [], calls := cs\<rparr>)
               = (if write_end_open e w
                  then Inl (Blocked (w\<lparr>pipe_buf := [], calls := cs\<rparr>))
                  else Inr (w\<lparr>pipe_buf := [], calls := cs\<rparr>))" for cs
    using assms(1,2)
    by (subst signal_handler_thread_main.simps)
       (simp add: sys_read_def write_end_open_def sizeof_sig_def)
  have hup: "handle_signal e SIGHUP (w\<lparr>pipe_buf := rest\<rparr>) =
             Inr (w\<lparr>pipe_buf := rest,
                    calls := calls w @ [On_reconfigure (callbacks w) (callback_arg w)]\<rparr>)"
    using assms(4) by (simp add: handle_signal_def)
  have stop: "handle_signal e s (w\<lparr>pipe_buf := rest\<rparr>) =
              Inr (w\<lparr>pipe_buf := rest,
                     calls := calls w @ [On_stop (callbacks w) (callback_arg w)]\<rparr>)"
    if "s = SIGINT \<or> s = SIGTERM" for s
    using assms(4) that by (auto simp: handle_signal_def SIGHUP_def SIGINT_def SIGTERM_def)
  have step: "signal_handler_thread_main e w =
              seq (handle_signal e sig (w\<lparr>pipe_buf := rest\<rparr>)) (signal_handler_thread_main e)"
    if "sig \<noteq> 0"
    by (rule thread_main_step [OF assms(1) assms(2) assms(3) that])
  show ?thesis
  proof (intro conjI impI)
    assume s: "sig = SIGHUP"
    show "handle_signal e sig (w\<lparr>pipe_buf := rest\<rparr>) =
          Inr (w\<lparr>pipe_buf := rest,
                 calls := calls w @ [On_reconfigure (callbacks w) (callback_arg w)]\<rparr>)"
      unfolding s by (rule hup)
    show run: "signal_handler_thread_main e w =
          signal_handler_thread_main e
            (w\<lparr>pipe_buf := rest,
               calls := calls w @ [On_reconfigure (callbacks w) (callback_arg w)]\<rparr>)"
      using step nz(1) hup by (simp add: s seq_def)
    show "signal_handler_thread_main e w =
          (if write_end_open e w
           then Inl (Blocked
                  (w\<lparr>pipe_buf := [],
                     calls := calls w @ [On_reconfigure (callbacks w) (callback_arg w)]\<rparr>))
           else Inr (w\<lparr>pipe_buf := [],
                       calls := calls w @ [On_reconfigure (callbacks w) (callback_arg w)]\<rparr>))"
      if "rest = []"
      using run waits that by simp
  next
    assume s: "sig = SIGINT \<or> sig = SIGTERM"
    then have n: "sig \<noteq> 0" using nz by auto
    show "handle_signal e sig (w\<lparr>pipe_buf := rest\<rparr>) =
          Inr (w\<lparr>pipe_buf := rest,
                 calls := calls w @ [On_stop (callbacks w) (callback_arg w)]\<rparr>)"
      by (rule stop [OF s])
    show run: "signal_handler_thread_main e w =
          signal_handler_thread_main e
            (w\<lparr>pipe_buf := rest,
               calls := calls w @ [On_stop (callbacks w) (callback_arg w)]\<rparr>)"
      using step [OF n] stop [OF s] by (simp add: seq_def)
    show "signal_handler_thread_main e w =
          (if write_end_open e w
           then Inl (Blocked
                  (w\<lparr>pipe_buf := [],
                     calls := calls w @ [On_stop (callbacks w) (callback_arg w)]\<rparr>))
           else Inr (w\<lparr>pipe_buf := [],
                       calls := calls w @ [On_stop (callbacks w) (callback_arg w)]\<rparr>))"
      if "rest = []"
      using run waits that by simp
  qed
qed

theorem thread_dispatches_registered_signals_witness:
  "signal_handler_thread_main example_env (running_state\<lparr>pipe_buf := [SIGHUP]\<rparr>)
   = Inl (Blocked (running_state\<lparr>pipe_buf := [], calls := [On_reconfigure 7 9]\<rparr>))
   \<and> signal_handler_thread_main example_env (running_state\<lparr>pipe_buf := [SIGINT]\<rparr>)
   = Inl (Blocked (running_state\<lparr>pipe_buf := [], calls := [On_stop 7 9]\<rparr>))
   \<and> handle_signal example_env SIGTERM (running_state\<lparr>pipe_buf := [0]\<rparr>)
   = Inr (running_state\<lparr>pipe_buf := [0], calls := [On_stop 7 9]\<rparr>)
   \<and> signal_handler_thread_main example_env (running_state\<lparr>pipe_buf := [SIGHUP, SIGTERM, 0]\<rparr>)
   = Inr (running_state\<lparr>pipe_buf := [], calls := [On_reconfigure 7 9, On_stop 7 9]\<rparr>)"
proof -
  have "write_end_open example_env running_state" by code_simp
  then have open_end: "write_end_open example_env (running_state\<lparr>pipe_buf := b\<rparr>)" for b
    by (simp add: write_end_open_def)
  have lone_hup:
    "signal_handler_thread_main example_env (running_state\<lparr>pipe_buf := [SIGHUP]\<rparr>)
     = Inl (Blocked (running_state\<lparr>pipe_buf := [], calls := [On_reconfigure 7 9]\<rparr>))"
  proof -
    let ?W = "running_state\<lparr>pipe_buf := [SIGHUP]\<rparr>"
    have "0 \<le> fst (signal_pipe ?W)" "fds ?W (nat (fst (signal_pipe ?W))) = Some Pipe_read"
      "pipe_buf ?W = SIGHUP # []" "callbacks ?W \<noteq> 0"
      by (simp_all add: running_state_def example_state_def)
    from thread_dispatches_registered_signals
           [where e = example_env, OF this, THEN conjunct1, rule_format, OF refl,
            THEN conjunct2, THEN conjunct2, rule_format, OF refl]
    show ?thesis using open_end by (simp add: running_state_def example_state_def)
  qed
  have lone_int:
    "signal_handler_thread_main example_env (running_state\<lparr>pipe_buf := [SIGINT]\<rparr>)
     = Inl (Blocked (running_state\<lparr>pipe_buf := [], calls := [On_stop 7 9]\<rparr>))"
  proof -
    let ?W = "running_state\<lparr>pipe_buf := [SIGINT]\<rparr>"
    have "0 \<le> fst (signal_pipe ?W)" "fds ?W (nat (fst (signal_pipe ?W))) = Some Pipe_read"
      "pipe_buf ?W = SIGINT # []" "callbacks ?W \<noteq> 0"
      by (simp_all add: running_state_def example_state_def)
    from thread_dispatches_registered_signals
           [where e = example_env, OF this, THEN conjunct2, rule_format, OF disjI1, OF refl,
            THEN conjunct2, THEN conjunct2, rule_format, OF refl]
    show ?thesis using open_end by (simp add: running_state_def example_state_def)
  qed
  have call_term:
    "handle_signal example_env SIGTERM (running_state\<lparr>pipe_buf := [0]\<rparr>)
     = Inr (running_state\<lparr>pipe_buf := [0], calls := [On_stop 7 9]\<rparr>)"
  proof -
    let ?W = "running_state\<lparr>pipe_buf := [SIGTERM, 0]\<rparr>"
    have "0 \<le> fst (signal_pipe ?W)" "fds ?W (nat (fst (signal_pipe ?W))) = Some Pipe_read"
      "pipe_buf ?W = SIGTERM # [0]" "callbacks ?W \<noteq> 0"
      by (simp_all add: running_state_def example_state_def)
    from thread_dispatches_registered_signals
           [where e = example_env, OF this, THEN conjunct2, rule_format, OF disjI2, OF refl, THEN conjunct1]
    show ?thesis by (simp add: running_state_def example_state_def)
  qed
  have a:
    "signal_handler_thread_main example_env (running_state\<lparr>pipe_buf := [SIGHUP, SIGTERM, 0]\<rparr>)
     = signal_handler_thread_main example_env
         (running_state\<lparr>pipe_buf := [SIGTERM, 0], calls := [On_reconfigure 7 9]\<rparr>)"
  proof -
    let ?W = "running_state\<lparr>pipe_buf := [SIGHUP, SIGTERM, 0]\<rparr>"
    have "0 \<le> fst (signal_pipe ?W)" "fds ?W (nat (fst (signal_pipe ?W))) = Some Pipe_read"
      "pipe_buf ?W = SIGHUP # [SIGTERM, 0]" "callbacks ?W \<noteq> 0"
      by (simp_all add: running_state_def example_state_def)
    from thread_dispatches_registered_signals
           [where e = example_env, OF this, THEN conjunct1, rule_format, OF refl,
            THEN conjunct2, THEN conjunct1]
    show ?thesis by (simp add: running_state_def example_state_def)
  qed
  have b:
    "signal_handler_thread_main example_env
       (running_state\<lparr>pipe_buf := [SIGTERM, 0], calls := [On_reconfigure 7 9]\<rparr>)
     = signal_handler_thread_main example_env
         (running_state\<lparr>pipe_buf := [0], calls := [On_reconfigure 7 9, On_stop 7 9]\<rparr>)"
  proof -
    let ?W = "running_state\<lparr>pipe_buf := [SIGTERM, 0], calls := [On_reconfigure 7 9]\<rparr>"
    have "0 \<le> fst (signal_pipe ?W)" "fds ?W (nat (fst (signal_pipe ?W))) = Some Pipe_read"
      "pipe_buf ?W = SIGTERM # [0]" "callbacks ?W \<noteq> 0"
      by (simp_all add: running_state_def example_state_def)
    from thread_dispatches_registered_signals
           [where e = example_env, OF this, THEN conjunct2, rule_format, OF disjI2, OF refl,
            THEN conjunct2, THEN conjunct1]
    show ?thesis by (simp add: running_state_def example_state_def)
  qed
  have c: "signal_handler_thread_main example_env
             (running_state\<lparr>pipe_buf := [0], calls := [On_reconfigure 7 9, On_stop 7 9]\<rparr>)
           = Inr (running_state\<lparr>pipe_buf := [], calls := [On_reconfigure 7 9, On_stop 7 9]\<rparr>)"
    by (subst signal_handler_thread_main.simps)
       (simp add: sys_read_def running_state_def example_state_def)
  show ?thesis
    unfolding lone_hup lone_int call_term a b c by simp
qed

text \<open>
  C4. When the thread reads the sentinel 0 it leaves the loop and returns: nothing is
  called, and what is behind the sentinel in the pipe stays unread.
\<close>

theorem sentinel_ends_thread_loop:
  assumes "0 \<le> fst (signal_pipe w)"
    and "fds w (nat (fst (signal_pipe w))) = Some Pipe_read"
    and "pipe_buf w = 0 # rest"
  shows "signal_handler_thread_main e w = Inr (w\<lparr>pipe_buf := rest\<rparr>)
       \<and> calls (w\<lparr>pipe_buf := rest\<rparr>) = calls w"
  using assms by (simp add: thread_main_sentinel)

theorem sentinel_ends_thread_loop_witness:
  "signal_handler_thread_main example_env (running_state\<lparr>pipe_buf := [0, SIGHUP]\<rparr>)
   = Inr (running_state\<lparr>pipe_buf := [SIGHUP]\<rparr>)"
  using sentinel_ends_thread_loop
          [of "running_state\<lparr>pipe_buf := [0, SIGHUP]\<rparr>" "[SIGHUP]" example_env]
  by (simp add: running_state_def example_state_def)

subsection \<open>The signal handler\<close>

text \<open>
  C7. If the \<^verbatim>\<open>write\<close> of the identifier into the write end of the pipe fails, the
  handler does not return: the process aborts.
\<close>

theorem failed_write_aborts:
  "fst (sys_write e (snd (signal_pipe w)) sig w) = - 1 \<Longrightarrow>
   send_signal_to_pipe e sig w = Inl Abort"
  by (cases "sys_write e (snd (signal_pipe w)) sig w") (simp add: send_signal_to_pipe_def)

theorem failed_write_aborts_witness:
  "fst (sys_write (example_env\<lparr>write_fails := (\<lambda>v. True)\<rparr>) (snd (signal_pipe running_state))
          SIGTERM running_state) = - 1
   \<and> send_signal_to_pipe (example_env\<lparr>write_fails := (\<lambda>v. True)\<rparr>) SIGTERM running_state
     = Inl Abort"
proof -
  have h: "fst (sys_write (example_env\<lparr>write_fails := (\<lambda>v. True)\<rparr>)
                 (snd (signal_pipe running_state)) SIGTERM running_state) = - 1"
    by (simp add: sys_write_def)
  show ?thesis using h failed_write_aborts [OF h] by simp
qed

text \<open>
  C8. Whenever the handler returns, \<^verbatim>\<open>errno\<close> is what it was when the handler was
  entered, whatever the \<^verbatim>\<open>write\<close> left there.
\<close>

theorem handler_restores_errno:
  "send_signal_to_pipe e sig w = Inr w' \<Longrightarrow> errno w' = errno w"
  by (auto simp: send_signal_to_pipe_def Let_def split: prod.splits if_splits)

theorem handler_restores_errno_witness:
  "send_signal_to_pipe example_env SIGTERM running_state
     = Inr (running_state\<lparr>pipe_buf := [SIGTERM]\<rparr>)
   \<and> errno (snd (sys_write example_env (snd (signal_pipe running_state)) SIGTERM running_state))
     = 11
   \<and> errno (running_state\<lparr>pipe_buf := [SIGTERM]\<rparr>) = errno running_state
   \<and> errno running_state = 2"
proof -
  have h: "send_signal_to_pipe example_env SIGTERM running_state
           = Inr (running_state\<lparr>pipe_buf := [SIGTERM]\<rparr>)"
    by (simp add: send_signal_to_pipe_def sys_write_def sizeof_sig_def running_state_def
          example_state_def example_env_def)
  show ?thesis
    using h handler_restores_errno [OF h]
    by (simp add: sys_write_def running_state_def example_state_def example_env_def)
qed

subsection \<open>Steps that keep the callback statics and the exit code\<close>

lemma kept_refl: "kept w w"
  by (simp add: kept_def)

lemma kept_trans: "kept a b \<Longrightarrow> kept b c \<Longrightarrow> kept a c"
  by (simp add: kept_def)

lemma kept_set_system_error: "kept w (set_system_error e code msg w)"
  by (simp add: kept_def set_system_error_def tr_error_set_def)

lemma kept_sys_close: "kept w (snd (sys_close e fd w))"
  by (simp add: kept_def sys_close_def)

lemma kept_sys_dup2: "kept w (snd (sys_dup2 e a b w))"
  by (simp add: kept_def sys_dup2_def)

lemma kept_sys_open: "kept w (snd (sys_open e path w))"
  by (simp add: kept_def sys_open_def split: option.splits)

lemma kept_sys_pipe: "kept w (snd (sys_pipe e w))"
  by (simp add: kept_def sys_pipe_def split: option.splits)

lemma kept_destroy_signal_pipe: "kept w (destroy_signal_pipe e w)"
  unfolding destroy_signal_pipe_def Let_def
  by (rule kept_trans [OF kept_sys_close kept_sys_close])

lemma kept_create_signal_pipe: "kept w (snd (create_signal_pipe e w))"
  using kept_sys_pipe [of w e]
  by (cases "sys_pipe e w") (simp add: create_signal_pipe_def kept_def set_system_error_def tr_error_set_def)

lemma kept_create_signal_handler_thread: "kept w (snd (create_signal_handler_thread e w))"
proof -
  obtain ok w1 where p: "create_signal_pipe e w = (ok, w1)" by (cases "create_signal_pipe e w")
  have k1: "kept w w1" using kept_create_signal_pipe [of w e] p by simp
  have k2: "kept w1 (destroy_signal_pipe e (set_system_error e c m (w1\<lparr>errno := c\<rparr>)))" for c m
    by (rule kept_trans [OF _ kept_destroy_signal_pipe])
       (simp add: kept_def set_system_error_def tr_error_set_def)
  show ?thesis
    using k1 k2 [of "pthread_create_ret e" "''pthread_create() failed''"]
    by (auto simp: create_signal_handler_thread_def p sys_pthread_create_def kept_def)
qed

lemma kept_setup_signal_handler:
  "setup_signal_handler e sig w = Inr (ok, w') \<Longrightarrow> kept w w'"
  by (auto simp: setup_signal_handler_def c_assert_def seq_def sys_signal_def kept_def
        set_system_error_def tr_error_set_def split: if_splits)

lemma kept_setup_signal_handlers:
  "setup_signal_handlers e w = Inr (ok, w') \<Longrightarrow> kept w w'"
  unfolding setup_signal_handlers_def seq_def
  by (auto split: sum.splits if_splits prod.splits
        dest!: kept_setup_signal_handler intro: kept_trans)

lemma kept_send_signal_to_pipe: "send_signal_to_pipe e sig w = Inr w' \<Longrightarrow> kept w w'"
  by (auto simp: send_signal_to_pipe_def sys_write_def kept_def
        split: if_splits option.splits open_file.splits)

lemma kept_handle_signal: "handle_signal e sig w = Inr w' \<Longrightarrow> kept w w'"
  by (auto simp: handle_signal_def c_assert_def kept_def split: if_splits)

lemma kept_thread_main: "signal_handler_thread_main e w = Inr w' \<Longrightarrow> kept w w'"
proof (induction e w rule: signal_handler_thread_main.induct)
  case (1 e w)
  show ?case
  proof (cases "sys_read e (fst (signal_pipe w)) w")
    case (Inl x)
    with "1.prems" show ?thesis by (subst (asm) signal_handler_thread_main.simps) simp
  next
    case (Inr t)
    obtain n sig w1 where t: "t = (n, sig, w1)" by (cases t)
    have r: "kept w w1"
      using Inr t by (auto simp: sys_read_def kept_def split: if_splits list.splits)
    show ?thesis
    proof (cases "n = sizeof_sig \<and> sig \<noteq> 0")
      case False
      with "1.prems" Inr t r show ?thesis
        by (subst (asm) signal_handler_thread_main.simps) auto
    next
      case True
      with "1.prems" Inr t obtain w2 where h: "handle_signal e sig w1 = Inr w2"
        and m: "signal_handler_thread_main e w2 = Inr w'"
        by (subst (asm) signal_handler_thread_main.simps) (auto split: sum.splits)
      have "kept w2 w'" using "1.IH" [OF Inr _ _ True h m] t by simp
      with r kept_handle_signal [OF h] show ?thesis by (blast intro: kept_trans)
    qed
  qed
qed

lemma kept_sys_pthread_join: "sys_pthread_join e w = Inr w' \<Longrightarrow> kept w w'"
proof -
  assume a: "sys_pthread_join e w = Inr w'"
  show ?thesis
  proof (cases "thread_alive w")
    case False
    with a show ?thesis by (simp add: sys_pthread_join_def kept_refl)
  next
    case True
    with a obtain w1 where m: "signal_handler_thread_main e w = Inr w1"
      and w': "w' = w1\<lparr>thread_alive := False\<rparr>"
      by (auto simp: sys_pthread_join_def seq_def split: sum.splits)
    from kept_thread_main [OF m] w' show ?thesis by (simp add: kept_def)
  qed
qed

lemma kept_destroy_signal_handler_thread:
  assumes "destroy_signal_handler_thread e w = Inr w'"
  shows "kept w w'"
proof -
  from assms obtain w1 w2 where a: "send_signal_to_pipe e 0 w = Inr w1"
    and b: "sys_pthread_join e w1 = Inr w2" and c: "w' = destroy_signal_pipe e w2"
    by (auto simp: destroy_signal_handler_thread_def seq_def split: sum.splits)
  have "kept w w2"
    by (rule kept_trans [OF kept_send_signal_to_pipe [OF a] kept_sys_pthread_join [OF b]])
  then show ?thesis
    unfolding c by (rule kept_trans [OF _ kept_destroy_signal_pipe])
qed

lemma kept_deliver_all: "deliver_all e sigs w = Inr w' \<Longrightarrow> kept w w'"
proof (induction sigs arbitrary: w)
  case Nil
  then show ?case by (simp add: kept_refl)
next
  case (Cons sig sigs)
  from Cons.prems obtain w1 where a: "deliver e sig w = Inr w1"
    and b: "deliver_all e sigs w1 = Inr w'"
    by (auto simp: seq_def split: sum.splits)
  have "kept w w1"
    using a by (auto simp: deliver_def kept_refl split: if_splits dest: kept_send_signal_to_pipe)
  with Cons.IH [OF b] show ?case by (blast intro: kept_trans)
qed

lemma call_on_start_result:
  assumes "call_on_start e cb cb_arg fg w = Inr w'"
  shows "callbacks w' = callbacks w \<and> callback_arg w' = callback_arg w
         \<and> exit_code w' = start_ret e"
proof -
  from assms obtain w1 where
    a: "deliver_all e (start_signals e) (w\<lparr>calls := calls w @ [On_start cb cb_arg fg]\<rparr>) = Inr w1"
    and b: "w' = w1\<lparr>exit_code := start_ret e\<rparr>"
    by (auto simp: call_on_start_def seq_def split: if_splits sum.splits)
  from kept_deliver_all [OF a] b show ?thesis by (simp add: kept_def)
qed

lemma kept_redirect_stdio: "kept w (redirect_stdio e w)"
proof -
  obtain fd w1 where o: "sys_open e ''/dev/null'' w = (fd, w1)"
    by (cases "sys_open e ''/dev/null'' w")
  have k1: "kept w w1" using kept_sys_open [of w e "''/dev/null''"] o by simp
  define w2 where "w2 = snd (sys_dup2 e fd STDIN_FILENO w1)"
  define w3 where "w3 = snd (sys_dup2 e fd STDOUT_FILENO w2)"
  define w4 where "w4 = snd (sys_dup2 e fd STDERR_FILENO w3)"
  have r: "redirect_stdio e w = snd (sys_close e fd w4)"
    by (simp add: redirect_stdio_def o w2_def w3_def w4_def)
  have "kept w w2" unfolding w2_def by (rule kept_trans [OF k1 kept_sys_dup2])
  then have "kept w w3" unfolding w3_def by (rule kept_trans [OF _ kept_sys_dup2])
  then have "kept w w4" unfolding w4_def by (rule kept_trans [OF _ kept_sys_dup2])
  then show ?thesis unfolding r by (rule kept_trans [OF _ kept_sys_close])
qed

lemma detach_fall_through: "detach e w = Fall_through w1 \<Longrightarrow> kept w w1"
proof -
  assume a: "detach e w = Fall_through w1"
  show ?thesis
  proof (cases "have_daemon e")
    case True
    with a have "w1 = snd (sys_daemon e True False w)" "daemon_ret e \<noteq> - 1"
      by (simp_all add: detach_def sys_daemon_def split: if_splits)
    then show ?thesis
      by (simp add: sys_daemon_def kept_def)
  next
    case False
    with a have "w1 = redirect_stdio e (w\<lparr>session_leader := True\<rparr>)"
      by (simp add: detach_def sys_fork_def sys_setsid_def split: if_splits)
    with kept_redirect_stdio [of "w\<lparr>session_leader := True\<rparr>" e] show ?thesis
      by (simp add: kept_def)
  qed
qed

lemma detach_return:
  assumes "detach e w = Return_now r w1"
  shows "callbacks w1 = callbacks w \<and> callback_arg w1 = callback_arg w
   \<and> (if r then \<not> have_daemon e \<and> fork_ret e \<noteq> - 1 \<and> fork_ret e \<noteq> 0 \<and> exit_code w1 = 0
       else exit_code w1 = exit_code w)"
proof (cases "have_daemon e")
  case True
  with assms have "\<not> r" "w1 = set_system_error e (os_errno e) ''daemon() failed''
                                 (w\<lparr>errno := os_errno e\<rparr>)"
    by (simp_all add: detach_def sys_daemon_def split: if_splits)
  then show ?thesis
    by (simp add: set_system_error_def tr_error_set_def)
next
  case False
  show ?thesis
  proof (cases "fork_ret e = - 1")
    case True
    with assms False have "\<not> r" "w1 = set_system_error e (os_errno e) ''fork() failed''
                                   (w\<lparr>errno := os_errno e\<rparr>)"
      by (simp_all add: detach_def sys_fork_def)
    then show ?thesis
      by (simp add: set_system_error_def tr_error_set_def)
  next
    case nf: False
    show ?thesis
    proof (cases "fork_ret e = 0")
      case True
      with assms False have "\<not> r" "w1 = set_system_error e (os_errno e) ''setsid() failed''
                                     (w\<lparr>errno := os_errno e\<rparr>)"
        by (simp_all add: detach_def sys_fork_def sys_setsid_def split: if_splits)
      then show ?thesis
        by (simp add: set_system_error_def tr_error_set_def)
    next
      case np: False
      with assms False nf have "r" "w1 = w\<lparr>exit_code := 0\<rparr>"
        by (simp_all add: detach_def sys_fork_def)
      with False nf np show ?thesis by simp
    qed
  qed
qed

subsection \<open>The entry point\<close>

lemma dtr_daemon_returns:
  assumes ret: "dtr_daemon e cb cb_arg fg w = Inr (r, w')"
  shows "callbacks w' = cb \<and> callback_arg w' = cb_arg
       \<and> (if \<not> r then exit_code w' = 1
          else (\<not> fg \<and> \<not> have_daemon e \<and> fork_ret e \<noteq> - 1 \<and> fork_ret e \<noteq> 0 \<and> exit_code w' = 0)
               \<or> exit_code w' = start_ret e)"
proof -
  define w0 where "w0 = w\<lparr>callbacks := cb, callback_arg := cb_arg, exit_code := 1\<rparr>"
  have e0: "callbacks w0 = cb \<and> callback_arg w0 = cb_arg \<and> exit_code w0 = 1"
    by (simp add: w0_def)
  show ?thesis
  proof (cases "if \<not> fg then detach e w0 else Fall_through w0")
    case (Return_now r1 w1)
    then have d: "detach e w0 = Return_now r1 w1" and nfg: "\<not> fg"
      by (auto split: if_splits)
    from ret Return_now have "r = r1" "w' = w1"
      by (simp_all add: dtr_daemon_def w0_def [symmetric])
    with detach_return [OF d] e0 nfg show ?thesis by (auto split: if_splits)
  next
    case (Fall_through w1)
    then have k1: "kept w0 w1"
      using detach_fall_through [of e w0 w1] by (auto simp: kept_refl split: if_splits)
    obtain created w2 where c: "create_signal_handler_thread e w1 = (created, w2)"
      by (cases "create_signal_handler_thread e w1")
    have k2: "kept w0 w2"
      using kept_create_signal_handler_thread [of w1 e] c k1 by (auto intro: kept_trans)
    show ?thesis
    proof (cases created)
      case False
      with ret Fall_through c have "r = False" "w' = w2"
        by (simp_all add: dtr_daemon_def w0_def [symmetric])
      with k2 e0 show ?thesis by (simp add: kept_def)
    next
      case True
      with ret Fall_through c obtain installed w3 where
        s: "setup_signal_handlers e w2 = Inr (installed, w3)"
        by (auto simp: dtr_daemon_def w0_def [symmetric] seq_def split: sum.splits)
      have k3: "kept w0 w3"
        using kept_setup_signal_handlers [OF s] k2 by (auto intro: kept_trans)
      show ?thesis
      proof (cases installed)
        case False
        with ret Fall_through c True s obtain w4 where
          d: "destroy_signal_handler_thread e w3 = Inr w4" and "r = False" "w' = w4"
          by (auto simp: dtr_daemon_def w0_def [symmetric] seq_def split: sum.splits)
        with kept_destroy_signal_handler_thread [OF d] k3 e0 show ?thesis
          by (simp add: kept_def)
      next
        case inst: True
        with ret Fall_through c True s obtain w4 w5 where
          st: "call_on_start e cb cb_arg fg w3 = Inr w4"
          and d: "destroy_signal_handler_thread e w4 = Inr w5" and "r = True" "w' = w5"
          by (auto simp: dtr_daemon_def w0_def [symmetric] seq_def split: sum.splits)
        with kept_destroy_signal_handler_thread [OF d] call_on_start_result [OF st] k3 e0
        show ?thesis by (simp add: kept_def)
      qed
    qed
  qed
qed

text \<open>
  C10. \<^verbatim>\<open>dtr_daemon\<close> stores 1 in \<^verbatim>\<open>*exit_code\<close> before anything else (the value found
  there at entry is never read), so whenever it returns \<^verbatim>\<open>false\<close> the exit code is 1. When
  it returns \<^verbatim>\<open>true\<close> the exit code is 0 stored by the parent after \<^verbatim>\<open>fork()\<close>, or the
  value returned by \<^verbatim>\<open>on_start\<close>.
\<close>

theorem exit_code_of_dtr_daemon:
  assumes "dtr_daemon e cb cb_arg fg w = Inr (r, w')"
  shows "dtr_daemon e cb cb_arg fg (w\<lparr>exit_code := x\<rparr>) = Inr (r, w')
       \<and> (if \<not> r then exit_code w' = 1
          else (\<not> fg \<and> \<not> have_daemon e \<and> fork_ret e \<noteq> - 1 \<and> fork_ret e \<noteq> 0 \<and> exit_code w' = 0)
               \<or> exit_code w' = start_ret e)"
proof -
  have "dtr_daemon e cb cb_arg fg (w\<lparr>exit_code := x\<rparr>) = dtr_daemon e cb cb_arg fg w"
    by (simp add: dtr_daemon_def)
  with assms dtr_daemon_returns [OF assms] show ?thesis by simp
qed

theorem exit_code_of_dtr_daemon_witness:
  "dtr_daemon (example_env\<lparr>pipe_fails := True\<rparr>) 7 9 True example_state
     = Inr (False, snd (projr (dtr_daemon (example_env\<lparr>pipe_fails := True\<rparr>) 7 9 True example_state)))
   \<and> dtr_daemon (example_env\<lparr>pipe_fails := True\<rparr>) 7 9 True (example_state\<lparr>exit_code := 99\<rparr>)
     = Inr (False, snd (projr (dtr_daemon (example_env\<lparr>pipe_fails := True\<rparr>) 7 9 True example_state)))
   \<and> exit_code (snd (projr (dtr_daemon (example_env\<lparr>pipe_fails := True\<rparr>) 7 9 True example_state))) = 1"
proof -
  let ?d = "dtr_daemon (example_env\<lparr>pipe_fails := True\<rparr>) 7 9 True example_state"
  have a: "\<not> isl ?d" by code_simp
  have b: "fst (projr ?d) = False" by code_simp
  have h: "?d = Inr (False, snd (projr ?d))"
    using a b by (cases ?d) auto
  show ?thesis
    using h exit_code_of_dtr_daemon [OF h, of 99] by simp
qed




text \<open>
  C6. Without \<^verbatim>\<open>daemon()\<close>, in the parent of the \<^verbatim>\<open>fork()\<close> a non-foreground
  \<^verbatim>\<open>dtr_daemon\<close> returns \<^verbatim>\<open>true\<close> with exit code 0 and has done nothing else: apart from
  the two statics and the exit code the state is the one at entry (no descriptor opened, no
  thread, no handler installed, no callback called).
\<close>

theorem parent_returns_at_once:
  assumes "\<not> have_daemon e" and "0 < fork_ret e"
  shows "dtr_daemon e cb cb_arg False w
         = Inr (True, w\<lparr>callbacks := cb, callback_arg := cb_arg, exit_code := 0\<rparr>)"
  using assms by (simp add: dtr_daemon_def detach_def sys_fork_def)

theorem parent_returns_at_once_witness:
  "dtr_daemon (example_env\<lparr>fork_ret := 4242\<rparr>) 7 9 False example_state
   = Inr (True, example_state\<lparr>callbacks := 7, callback_arg := 9, exit_code := 0\<rparr>)"
  using parent_returns_at_once [of "example_env\<lparr>fork_ret := 4242\<rparr>" 7 9 example_state]
  by (simp add: example_env_def)

subsection \<open>Detaching in the child of the fork\<close>

lemma lowest_free_unused: "lowest_free lim t = Some i \<Longrightarrow> t i = None"
  by (auto simp: lowest_free_def find_Some_iff)

lemma redirect_stdio_ok:
  assumes "\<not> open_fails e" and "lowest_free (open_max e) (fds w) = Some fd" and "2 < fd"
  shows "redirect_stdio e w =
         w\<lparr>fds := (fds w)(0 \<mapsto> File ''/dev/null'', 1 \<mapsto> File ''/dev/null'',
                          2 \<mapsto> File ''/dev/null'')\<rparr>"
proof -
  have u: "fds w fd = None" by (rule lowest_free_unused [OF assms(2)])
  have f: "((fds w)(fd \<mapsto> File ''/dev/null''))
             (0 \<mapsto> File ''/dev/null'', Suc 0 \<mapsto> File ''/dev/null'', 2 \<mapsto> File ''/dev/null'',
              fd := None)
           = (fds w)(0 \<mapsto> File ''/dev/null'', Suc 0 \<mapsto> File ''/dev/null'',
                     2 \<mapsto> File ''/dev/null'')"
    using u assms(3) by (auto simp: fun_eq_iff)
  show ?thesis
    using assms f
    by (simp add: redirect_stdio_def sys_open_def sys_dup2_def sys_close_def is_open_def
          STDIN_FILENO_def STDOUT_FILENO_def STDERR_FILENO_def)
qed

lemma child_detaches:
  assumes "\<not> have_daemon e" and "fork_ret e = 0" and "setsid_ret e \<noteq> - 1"
    and "\<not> open_fails e" and "lowest_free (open_max e) (fds w) = Some fd" and "2 < fd"
  shows "detach e w =
         Fall_through
           (w\<lparr>session_leader := True,
              fds := (fds w)(0 \<mapsto> File ''/dev/null'', 1 \<mapsto> File ''/dev/null'',
                             2 \<mapsto> File ''/dev/null'')\<rparr>)"
  using assms redirect_stdio_ok [of e "w\<lparr>session_leader := True\<rparr>" fd]
  by (simp add: detach_def sys_fork_def sys_setsid_def)

text \<open>
  C9, where it fails. A process whose standard input is closed when \<^verbatim>\<open>dtr_daemon\<close> is
  entered: \<^verbatim>\<open>open("/dev/null")\<close> returns descriptor 0, the three \<^verbatim>\<open>dup2\<close> calls bind 1 and
  2 to it, and \<^verbatim>\<open>close(fd)\<close> then closes descriptor 0. The child is in a new session and
  its working directory is untouched, but its standard input is closed, not the null
  device, and \<^verbatim>\<open>dtr_daemon\<close> goes on to run the workload so. (When the descriptor returned
  is above 2, \<open>child_detaches\<close> gives all three.)
\<close>

theorem child_with_stdin_closed:
  "fds stdin_closed_state 0 = None
   \<and> \<not> is_return (detach example_env stdin_closed_state)
   \<and> session_leader (next_state (detach example_env stdin_closed_state))
   \<and> cwd (next_state (detach example_env stdin_closed_state)) = cwd stdin_closed_state
   \<and> fds (next_state (detach example_env stdin_closed_state)) 0 = None
   \<and> fds (next_state (detach example_env stdin_closed_state)) 1 = Some (File ''/dev/null'')
   \<and> fds (next_state (detach example_env stdin_closed_state)) 2 = Some (File ''/dev/null'')
   \<and> \<not> isl (dtr_daemon example_env 7 9 False stdin_closed_state)
   \<and> fst (projr (dtr_daemon example_env 7 9 False stdin_closed_state))
   \<and> calls (snd (projr (dtr_daemon example_env 7 9 False stdin_closed_state)))
     = [On_start 7 9 False, On_reconfigure 7 9, On_stop 7 9]
   \<and> fds (snd (projr (dtr_daemon example_env 7 9 False stdin_closed_state))) 0 = None"
  by code_simp

subsection \<open>Failed setup\<close>

lemma sys_pipe_fails_eq:
  "fst (sys_pipe e w) = - 1 \<Longrightarrow> sys_pipe e w = (- 1, w\<lparr>errno := os_errno e\<rparr>)"
proof (cases "pipe_fails e")
  case True
  then show ?thesis by (simp add: sys_pipe_def)
next
  case False
  assume f: "fst (sys_pipe e w) = - 1"
  show ?thesis
  proof (cases "lowest_free (open_max e) (fds w)")
    case None
    with False show ?thesis by (simp add: sys_pipe_def)
  next
    case (Some r)
    show ?thesis
    proof (cases "lowest_free (open_max e) ((fds w)(r \<mapsto> Pipe_read))")
      case None
      with False Some show ?thesis by (simp add: sys_pipe_def)
    next
      case wr: (Some wr)
      with False Some f show ?thesis by (simp add: sys_pipe_def)
    qed
  qed
qed

lemma sys_pipe_succeeds:
  assumes "fst (sys_pipe e w) \<noteq> - 1"
  obtains r wr where "r \<noteq> wr" and "fds w r = None" and "fds w wr = None"
    and "sys_pipe e w =
         (0, w\<lparr>fds := (fds w)(r \<mapsto> Pipe_read, wr \<mapsto> Pipe_write),
                signal_pipe := (int r, int wr), pipe_buf := []\<rparr>)"
proof -
  from assms obtain r where r: "lowest_free (open_max e) (fds w) = Some r"
    by (auto simp: sys_pipe_def split: if_splits option.splits)
  from assms r obtain wr where
    wr: "lowest_free (open_max e) ((fds w)(r \<mapsto> Pipe_read)) = Some wr"
    by (auto simp: sys_pipe_def split: if_splits option.splits)
  have a: "fds w r = None" by (rule lowest_free_unused [OF r])
  have b: "((fds w)(r \<mapsto> Pipe_read)) wr = None" by (rule lowest_free_unused [OF wr])
  then have c: "r \<noteq> wr" and d: "fds w wr = None" by (auto split: if_splits)
  have "sys_pipe e w =
         (0, w\<lparr>fds := (fds w)(r \<mapsto> Pipe_read, wr \<mapsto> Pipe_write),
                signal_pipe := (int r, int wr), pipe_buf := []\<rparr>)"
    using assms r wr by (simp add: sys_pipe_def split: if_splits)
  then show ?thesis using that [of r wr] a c d by blast
qed

lemma pipe_closed_again:
  assumes "r \<noteq> wr" and "t r = None" and "t wr = None"
  shows "(t(r \<mapsto> a, wr \<mapsto> b))(r := None, wr := None) = t"
  using assms by (auto simp: fun_eq_iff)

lemma destroy_signal_pipe_eq:
  assumes "signal_pipe w = (int r, int wr)" and "fds w r \<noteq> None" and "fds w wr \<noteq> None"
    and "r \<noteq> wr"
  shows "destroy_signal_pipe e w = w\<lparr>fds := (fds w)(r := None, wr := None)\<rparr>"
  using assms by (simp add: destroy_signal_pipe_def sys_close_def is_open_def)

lemma setup_signal_handler_eq:
  "sig \<noteq> 0 \<Longrightarrow>
   setup_signal_handler e sig w =
   Inr (if signal_fails e sig
        then (False, set_system_error e (os_errno e) ''signal() failed''
                       (w\<lparr>errno := os_errno e\<rparr>))
        else (True, w\<lparr>dispositions := (dispositions w)(sig := Send_signal_to_pipe)\<rparr>))"
  by (simp add: setup_signal_handler_def c_assert_def seq_def sys_signal_def)

lemma setup_signal_handlers_fail:
  assumes "signal_fails e SIGINT \<or> signal_fails e SIGTERM \<or> signal_fails e SIGHUP"
  shows "setup_signal_handlers e w =
         Inr (False, set_system_error e (os_errno e) ''signal() failed''
                       (w\<lparr>errno := os_errno e,
                          dispositions := installed_before_failure e (dispositions w)\<rparr>))"
proof -
  have nz: "SIGINT \<noteq> 0" "SIGTERM \<noteq> 0" "SIGHUP \<noteq> 0"
    by (simp_all add: SIGINT_def SIGTERM_def SIGHUP_def)
  show ?thesis
    using assms
    by (auto simp: setup_signal_handlers_def setup_signal_handler_eq [OF nz(1)]
          setup_signal_handler_eq [OF nz(2)] setup_signal_handler_eq [OF nz(3)] seq_def
          installed_before_failure_def set_system_error_def tr_error_set_def)
qed

lemma setup_signal_handlers_ok:
  assumes "\<not> signal_fails e SIGINT" "\<not> signal_fails e SIGTERM" "\<not> signal_fails e SIGHUP"
  shows "setup_signal_handlers e w =
         Inr (True, w\<lparr>dispositions := (dispositions w)
                 (SIGINT := Send_signal_to_pipe, SIGTERM := Send_signal_to_pipe,
                  SIGHUP := Send_signal_to_pipe)\<rparr>)"
proof -
  have nz: "SIGINT \<noteq> 0" "SIGTERM \<noteq> 0" "SIGHUP \<noteq> 0"
    by (simp_all add: SIGINT_def SIGTERM_def SIGHUP_def)
  show ?thesis
    using assms
    by (simp add: setup_signal_handlers_def setup_signal_handler_eq [OF nz(1)]
          setup_signal_handler_eq [OF nz(2)] setup_signal_handler_eq [OF nz(3)] seq_def)
qed

lemma destroy_idle_thread:
  assumes sp: "signal_pipe w = (int r, int wr)"
    and r: "fds w r = Some Pipe_read" and wr: "fds w wr = Some Pipe_write" and ne: "r \<noteq> wr"
    and buf: "pipe_buf w = []" and alive: "thread_alive w" and ok: "\<not> write_fails e 0"
  shows "destroy_signal_handler_thread e w =
         Inr (w\<lparr>thread_alive := False, fds := (fds w)(r := None, wr := None)\<rparr>)"
proof -
  have s: "send_signal_to_pipe e 0 w = Inr (w\<lparr>pipe_buf := [0]\<rparr>)"
    using sp wr buf ok
    by (simp add: send_signal_to_pipe_def sys_write_def sizeof_sig_def)
  have m: "signal_handler_thread_main e (w\<lparr>pipe_buf := [0]\<rparr>) = Inr w"
    using thread_main_sentinel [of "w\<lparr>pipe_buf := [0]\<rparr>" "[]" e] sp r buf by simp
  have j: "sys_pthread_join e (w\<lparr>pipe_buf := [0]\<rparr>) = Inr (w\<lparr>thread_alive := False\<rparr>)"
    using alive m by (simp add: sys_pthread_join_def seq_def)
  have d: "destroy_signal_pipe e (w\<lparr>thread_alive := False\<rparr>)
           = w\<lparr>thread_alive := False, fds := (fds w)(r := None, wr := None)\<rparr>"
    using destroy_signal_pipe_eq [of "w\<lparr>thread_alive := False\<rparr>" r wr e] sp r wr ne by simp
  show ?thesis
    by (simp add: destroy_signal_handler_thread_def seq_def s j d)
qed

lemma sys_open_leaves:
  "calls (snd (sys_open e path w)) = calls w
   \<and> thread_alive (snd (sys_open e path w)) = thread_alive w"
  by (simp add: sys_open_def split: option.splits)

lemma sys_dup2_leaves:
  "calls (snd (sys_dup2 e a b w)) = calls w
   \<and> thread_alive (snd (sys_dup2 e a b w)) = thread_alive w"
  by (simp add: sys_dup2_def)

lemma sys_close_leaves:
  "calls (snd (sys_close e fd w)) = calls w
   \<and> thread_alive (snd (sys_close e fd w)) = thread_alive w"
  by (simp add: sys_close_def)

lemma redirect_stdio_leaves:
  "calls (redirect_stdio e w) = calls w
   \<and> thread_alive (redirect_stdio e w) = thread_alive w"
proof -
  obtain fd w1 where o: "sys_open e ''/dev/null'' w = (fd, w1)"
    by (cases "sys_open e ''/dev/null'' w")
  have "calls w1 = calls w \<and> thread_alive w1 = thread_alive w"
    using sys_open_leaves [of e "''/dev/null''" w] o by simp
  then show ?thesis
    by (simp add: redirect_stdio_def o Let_def sys_dup2_leaves sys_close_leaves)
qed

lemma detach_leaves:
  assumes "detach e w = Fall_through w1"
  shows "calls w1 = calls w \<and> thread_alive w1 = thread_alive w"
proof (cases "have_daemon e")
  case True
  with assms have "w1 = snd (sys_daemon e True False w)" "daemon_ret e \<noteq> - 1"
    by (simp_all add: detach_def sys_daemon_def split: if_splits)
  then show ?thesis by (simp add: sys_daemon_def)
next
  case False
  with assms have w1: "w1 = redirect_stdio e (w\<lparr>session_leader := True\<rparr>)"
    by (simp add: detach_def sys_fork_def sys_setsid_def split: if_splits)
  show ?thesis unfolding w1 by (simp add: redirect_stdio_leaves)
qed

lemma setup_after_detach:
  assumes "(if \<not> fg then detach e (w\<lparr>callbacks := cb, callback_arg := cb_arg, exit_code := 1\<rparr>)
            else Fall_through (w\<lparr>callbacks := cb, callback_arg := cb_arg, exit_code := 1\<rparr>))
           = Fall_through w1"
  shows "dtr_daemon e cb cb_arg fg w =
         (let (created, w2) = create_signal_handler_thread e w1
          in if \<not> created then Inr (False, w2)
             else seq (setup_signal_handlers e w2) (\<lambda>(installed, w3).
                    if \<not> installed
                    then seq (destroy_signal_handler_thread e w3) (\<lambda>w4. Inr (False, w4))
                    else seq (call_on_start e cb cb_arg fg w3) (\<lambda>w4.
                         seq (destroy_signal_handler_thread e w4) (\<lambda>w5.
                         Inr (True, w5)))))"
  using assms by (simp add: dtr_daemon_def)

text \<open>
  C5, as the code has it. Let the setup steps be reached in a state \<open>w1\<close> without a
  dispatch thread, and let \<^verbatim>\<open>pipe\<close>, \<^verbatim>\<open>pthread_create\<close> or one of the three \<^verbatim>\<open>signal\<close>
  calls fail. Then \<^verbatim>\<open>dtr_daemon\<close> returns \<^verbatim>\<open>false\<close> with the error set, \<^verbatim>\<open>on_start\<close> is not
  called (nothing is), no dispatch thread is left and the descriptor table is the one of
  \<open>w1\<close>: both ends of the pipe are closed. The handlers installed before the failing
  registration stay installed. The one other outcome is that the thread has to be stopped
  and the write of the sentinel fails: then the process aborts.
\<close>

theorem failed_setup_rolls_back_thread_and_pipe:
  assumes reach:
      "(if \<not> fg then detach e (w\<lparr>callbacks := cb, callback_arg := cb_arg, exit_code := 1\<rparr>)
        else Fall_through (w\<lparr>callbacks := cb, callback_arg := cb_arg, exit_code := 1\<rparr>))
       = Fall_through w1"
    and idle: "\<not> thread_alive w1"
    and failure: "fst (sys_pipe e w1) = - 1 \<or> pthread_create_ret e \<noteq> 0
                  \<or> signal_fails e SIGINT \<or> signal_fails e SIGTERM \<or> signal_fails e SIGHUP"
  shows "if fst (sys_pipe e w1) \<noteq> - 1 \<and> pthread_create_ret e = 0 \<and> write_fails e 0
         then dtr_daemon e cb cb_arg fg w = Inl Abort
         else \<exists>w'. dtr_daemon e cb cb_arg fg w = Inr (False, w')
                \<and> error w' \<noteq> None
                \<and> calls w' = calls w
                \<and> \<not> thread_alive w'
                \<and> fds w' = fds w1
                \<and> dispositions w' =
                    (if fst (sys_pipe e w1) = - 1 \<or> pthread_create_ret e \<noteq> 0
                     then dispositions w1
                     else installed_before_failure e (dispositions w1))"
proof -
  note d = setup_after_detach [OF reach]
  have c: "calls w1 = calls w"
    using reach detach_leaves [of e "w\<lparr>callbacks := cb, callback_arg := cb_arg, exit_code := 1\<rparr>" w1]
    by (auto split: if_splits)
  show ?thesis
  proof (cases "fst (sys_pipe e w1) = - 1")
    case True
    have "create_signal_handler_thread e w1 =
          (False, set_system_error e (os_errno e) ''pipe() failed'' (w1\<lparr>errno := os_errno e\<rparr>))"
      by (simp add: create_signal_handler_thread_def create_signal_pipe_def
            sys_pipe_fails_eq [OF True])
    with True idle c show ?thesis
      by (simp add: d set_system_error_def tr_error_set_def)
  next
    case False
    from sys_pipe_succeeds [OF False] obtain r wr where ne: "r \<noteq> wr"
      and fr: "fds w1 r = None" and fw: "fds w1 wr = None"
      and p: "sys_pipe e w1 =
              (0, w1\<lparr>fds := (fds w1)(r \<mapsto> Pipe_read, wr \<mapsto> Pipe_write),
                      signal_pipe := (int r, int wr), pipe_buf := []\<rparr>)"
      by blast
    define wp where "wp = w1\<lparr>fds := (fds w1)(r \<mapsto> Pipe_read, wr \<mapsto> Pipe_write),
                              signal_pipe := (int r, int wr), pipe_buf := []\<rparr>"
    have cp: "create_signal_pipe e w1 = (True, wp)"
      by (simp add: create_signal_pipe_def p wp_def)
    have restored: "(fds wp)(r := None, wr := None) = fds w1"
      using pipe_closed_again [OF ne fr fw] by (simp add: wp_def)
    show ?thesis
    proof (cases "pthread_create_ret e = 0")
      case notzero: False
      define we where "we = set_system_error e (pthread_create_ret e) ''pthread_create() failed''
                              (wp\<lparr>errno := pthread_create_ret e\<rparr>)"
      have "destroy_signal_pipe e we = we\<lparr>fds := (fds we)(r := None, wr := None)\<rparr>"
        using ne by (intro destroy_signal_pipe_eq)
                    (simp_all add: we_def wp_def set_system_error_def tr_error_set_def)
      then have "create_signal_handler_thread e w1 =
                 (False, we\<lparr>fds := (fds we)(r := None, wr := None)\<rparr>)"
        using notzero
        by (simp add: create_signal_handler_thread_def cp sys_pthread_create_def we_def)
      moreover have "fds we = fds wp" "error we \<noteq> None" "calls we = calls w1"
        "thread_alive we = thread_alive w1" "dispositions we = dispositions w1"
        by (simp_all add: we_def wp_def set_system_error_def tr_error_set_def)
      ultimately show ?thesis
        using False notzero idle c restored by (simp add: d)
    next
      case True
      with failure False
      have sf: "signal_fails e SIGINT \<or> signal_fails e SIGTERM \<or> signal_fails e SIGHUP"
        by simp
      define wt where "wt = wp\<lparr>thread_alive := True, errno := 0\<rparr>"
      have ct: "create_signal_handler_thread e w1 = (True, wt)"
        using True
        by (simp add: create_signal_handler_thread_def cp sys_pthread_create_def wt_def)
      define wf where "wf = set_system_error e (os_errno e) ''signal() failed''
                              (wt\<lparr>errno := os_errno e,
                                  dispositions := installed_before_failure e (dispositions wt)\<rparr>)"
      have sh: "setup_signal_handlers e wt = Inr (False, wf)"
        unfolding wf_def by (rule setup_signal_handlers_fail [OF sf])
      have facts: "signal_pipe wf = (int r, int wr)" "fds wf = fds wp"
        "fds wf r = Some Pipe_read" "fds wf wr = Some Pipe_write" "pipe_buf wf = []"
        "thread_alive wf" "error wf \<noteq> None" "calls wf = calls w1"
        "dispositions wf = installed_before_failure e (dispositions w1)"
        using ne by (simp_all add: wf_def wt_def wp_def set_system_error_def tr_error_set_def)
      show ?thesis
      proof (cases "write_fails e 0")
        case sentinel: False
        have ds: "destroy_signal_handler_thread e wf =
                  Inr (wf\<lparr>thread_alive := False, fds := (fds wf)(r := None, wr := None)\<rparr>)"
          by (rule destroy_idle_thread
                [OF facts(1) facts(3) facts(4) ne facts(5) facts(6) sentinel])
        show ?thesis
          using False True sentinel c restored facts
          by (simp add: d ct sh ds seq_def)
      next
        case lost: True
        have "send_signal_to_pipe e 0 wf = Inl Abort"
          using lost by (simp add: send_signal_to_pipe_def sys_write_def)
        then have "destroy_signal_handler_thread e wf = Inl Abort"
          by (simp add: destroy_signal_handler_thread_def seq_def)
        with False True lost show ?thesis
          by (simp add: d ct sh seq_def)
      qed
    qed
  qed
qed

theorem failed_setup_rolls_back_thread_and_pipe_witness:
  "\<exists>w'. dtr_daemon sigterm_refused_env 7 9 True example_state = Inr (False, w')
        \<and> error w' \<noteq> None
        \<and> calls w' = []
        \<and> \<not> thread_alive w'
        \<and> fds w' = fds example_state
        \<and> dispositions w' = (\<lambda>sig. Sig_dfl)(SIGINT := Send_signal_to_pipe)"
proof -
  let ?w1 = "example_state\<lparr>callbacks := 7, callback_arg := 9, exit_code := 1\<rparr>"
  have p: "fst (sys_pipe sigterm_refused_env ?w1) \<noteq> - 1" by code_simp
  have i: "installed_before_failure sigterm_refused_env (\<lambda>sig. Sig_dfl)
           = (\<lambda>sig. Sig_dfl)(SIGINT := Send_signal_to_pipe)"
    by (simp add: installed_before_failure_def sigterm_refused_env_def SIGINT_def SIGTERM_def)
  show ?thesis
    using failed_setup_rolls_back_thread_and_pipe
            [where fg = True and e = sigterm_refused_env and w = example_state and cb = 7
               and cb_arg = 9 and ?w1.0 = ?w1] p i
    by (simp add: sigterm_refused_env_def example_env_def example_state_def)
qed

text \<open>
  C5, as claimed, fails: when the registration for \<^verbatim>\<open>SIGTERM\<close> is refused,
  \<^verbatim>\<open>dtr_daemon\<close> returns \<^verbatim>\<open>false\<close> and the handler installed just before for \<^verbatim>\<open>SIGINT\<close>,
  whose disposition was the default at entry, is still \<^verbatim>\<open>send_signal_to_pipe\<close>.
\<close>

theorem installed_handler_survives_rollback:
  "signal_fails sigterm_refused_env SIGTERM
   \<and> \<not> isl (dtr_daemon sigterm_refused_env 7 9 True example_state)
   \<and> \<not> fst (projr (dtr_daemon sigterm_refused_env 7 9 True example_state))
   \<and> dispositions example_state SIGINT = Sig_dfl
   \<and> dispositions (snd (projr (dtr_daemon sigterm_refused_env 7 9 True example_state))) SIGINT
     = Send_signal_to_pipe"
  by code_simp

end
